theory Spec2Isabelle
  imports Complex_Main
begin

section \<open>JavaScript numbers and \<open>parseFloat\<close>\<close>

text \<open>
  The component modelled is \<^verbatim>\<open>WalletConnection\<close> as it stands at lines 793-1440 of
  \<^verbatim>\<open>src/src/App.tsx\<close> (the file holds several revisions of it; this is the last
  one). It reads its amounts from text fields with \<^verbatim>\<open>parseFloat\<close> and scales them
  with \<^verbatim>\<open>Math.floor(amount * 1e9)\<close>.

  A JavaScript number is an IEEE 754 double. A finite double is modelled by the
  rational it is, and the three special values by constructors. Every operation
  that produces a number rounds its exact result to the nearest double, ties to
  the even mantissa, as the language does: \<open>nearest\<close> below is that rounding, and
  \<open>js_number\<close> adds the overflow to an infinity. Negative zero is identified with
  zero (the code only compares amounts and multiplies them).

  A positive double is \<open>m * 2^(e - 52)\<close> with \<open>2^e \<le> m * 2^(e - 52) < 2^(e + 1)\<close>,
  \<open>m\<close> an integer and \<open>e\<close> between -1022 and 1023; below \<open>2^-1022\<close> the doubles
  are the multiples of \<open>2^-1074\<close>. So the doubles around \<open>q\<close> are the multiples
  of \<open>2^(max e (-1022) - 52)\<close>, where \<open>e\<close> is the binary exponent of \<open>q\<close>.
\<close>

datatype jsnum = NaN | Num rat | Infinity | NegInfinity

text \<open>The number of binary digits of a natural number.\<close>

fun bit_length :: "nat \<Rightarrow> nat" where
  "bit_length n = (if n = 0 then 0 else Suc (bit_length (n div 2)))"

declare bit_length.simps [simp del]

definition pow2 :: "int \<Rightarrow> rat" where
  "pow2 e = (if 0 \<le> e then 2 ^ nat e else 1 / 2 ^ nat (- e))"

text \<open>For \<open>q > 0\<close>, the \<open>e\<close> with \<open>2^e \<le> q < 2^(e + 1)\<close>.\<close>

definition binary_exponent :: "rat \<Rightarrow> int" where
  "binary_exponent q =
     (if 1 \<le> q then int (bit_length (nat \<lfloor>q\<rfloor>)) - 1
      else - int (bit_length (nat (\<lceil>1 / q\<rceil> - 1))))"

definition round_half_even :: "rat \<Rightarrow> int" where
  "round_half_even x =
     (let f = \<lfloor>x\<rfloor>; d = x - of_int f
      in if d < 1 / 2 then f
         else if 1 / 2 < d then f + 1
         else if even f then f else f + 1)"

definition nearest :: "rat \<Rightarrow> rat" where
  "nearest q =
     (if q = 0 then 0
      else
        (let e = max (binary_exponent \<bar>q\<bar>) (- 1022);
             ulp = pow2 (e - 52);
             r = of_int (round_half_even (\<bar>q\<bar> / ulp)) * ulp
         in if 0 < q then r else - r))"

definition js_number :: "rat \<Rightarrow> jsnum" where
  "js_number q =
     (let r = nearest q
      in if 2 ^ 1024 \<le> r then Infinity
         else if r \<le> - (2 ^ 1024) then NegInfinity
         else Num r)"

text \<open>\<^verbatim>\<open>isNaN(x)\<close>, \<^verbatim>\<open>x <= y\<close> and \<^verbatim>\<open>x > y\<close>; every comparison with NaN is false.\<close>

definition isNaN :: "jsnum \<Rightarrow> bool" where
  "isNaN x = (x = NaN)"

fun js_le :: "jsnum \<Rightarrow> jsnum \<Rightarrow> bool" where
  "js_le NaN _ = False"
| "js_le _ NaN = False"
| "js_le NegInfinity _ = True"
| "js_le _ Infinity = True"
| "js_le (Num a) (Num b) = (a \<le> b)"
| "js_le (Num a) NegInfinity = False"
| "js_le Infinity (Num b) = False"
| "js_le Infinity NegInfinity = False"

fun js_gt :: "jsnum \<Rightarrow> jsnum \<Rightarrow> bool" where
  "js_gt NaN _ = False"
| "js_gt _ NaN = False"
| "js_gt (Num a) (Num b) = (a > b)"
| "js_gt Infinity Infinity = False"
| "js_gt Infinity _ = True"
| "js_gt NegInfinity _ = False"
| "js_gt (Num a) NegInfinity = True"
| "js_gt (Num a) Infinity = False"

text \<open>\<^verbatim>\<open>amount * 1e9\<close> (the product of two doubles, rounded), \<^verbatim>\<open>Math.floor\<close> and
  \<^verbatim>\<open>BigInt\<close>. \<^verbatim>\<open>BigInt\<close> throws a RangeError on
  a number that is not an integer (after \<^verbatim>\<open>Math.floor\<close>: on an infinity or NaN); the
  message stands for the engine's.\<close>

definition times_1e9 :: "jsnum \<Rightarrow> jsnum" where
  "times_1e9 x =
     (case x of
        NaN \<Rightarrow> NaN
      | Num q \<Rightarrow> js_number (q * 10 ^ 9)
      | Infinity \<Rightarrow> Infinity
      | NegInfinity \<Rightarrow> NegInfinity)"

definition Math_floor :: "jsnum \<Rightarrow> jsnum" where
  "Math_floor x = (case x of Num q \<Rightarrow> Num (of_int \<lfloor>q\<rfloor>) | _ \<Rightarrow> x)"

type_synonym 'a outcome = "string + 'a"

definition BigInt :: "jsnum \<Rightarrow> int outcome" where
  "BigInt x =
     (case x of
        Num q \<Rightarrow>
          (if of_int \<lfloor>q\<rfloor> = q then Inr \<lfloor>q\<rfloor>
           else Inl ''The number cannot be converted to a BigInt because it is not an integer'')
      | _ \<Rightarrow> Inl ''The number cannot be converted to a BigInt because it is not an integer'')"

text \<open>
  \<^verbatim>\<open>parseFloat(string)\<close> (ECMAScript 19.2.4): leading white space is skipped, then the
  longest prefix that is a \<open>StrDecimalLiteral\<close> is converted; what follows it is
  ignored; with no such prefix the result is NaN. A literal is an optional sign
  followed by \<open>Infinity\<close>, or by digits with an optional fraction (\<open>5\<close>, \<open>5.\<close>,
  \<open>5.25\<close>, \<open>.25\<close>) and an optional exponent part (\<open>e\<close> or \<open>E\<close>, an optional
  sign, at least one digit). The value of the literal is rounded to the nearest
  double (for a literal of more than 20 significant digits the language lets an
  engine round less exactly; V8 does not). A string is the list of its code units, each below 256 (a \<open>char\<close>);
  the white space and line terminators in that range are TAB, LF, VT, FF, CR,
  SPACE and NO-BREAK SPACE (U+00A0).
\<close>

definition is_digit :: "char \<Rightarrow> bool" where
  "is_digit c = (48 \<le> (of_char c :: nat) \<and> (of_char c :: nat) \<le> 57)"

definition is_white :: "char \<Rightarrow> bool" where
  "is_white c = ((of_char c :: nat) \<in> {9, 10, 11, 12, 13, 32, 160})"

definition digits_value :: "string \<Rightarrow> nat" where
  "digits_value ds = foldl (\<lambda>n c. 10 * n + ((of_char c :: nat) - 48)) 0 ds"

definition strip_sign :: "string \<Rightarrow> bool \<times> string" where
  "strip_sign s =
     (case s of
        [] \<Rightarrow> (False, [])
      | c # r \<Rightarrow>
          if c = CHR ''-'' then (True, r)
          else if c = CHR ''+'' then (False, r)
          else (False, s))"

definition exponent_part :: "string \<Rightarrow> int" where
  "exponent_part s =
     (case s of
        [] \<Rightarrow> 0
      | c # r \<Rightarrow>
          if c = CHR ''e'' \<or> c = CHR ''E'' then
            (let (neg, r') = strip_sign r;
                 ds = takeWhile is_digit r'
             in if ds = [] then 0
                else if neg then - int (digits_value ds)
                else int (digits_value ds))
          else 0)"

definition fraction_part :: "string \<Rightarrow> string \<times> string" where
  "fraction_part s =
     (case s of
        [] \<Rightarrow> ([], [])
      | c # r \<Rightarrow>
          if c = CHR ''.'' then (takeWhile is_digit r, dropWhile is_digit r)
          else ([], s))"

definition scale10 :: "rat \<Rightarrow> int \<Rightarrow> rat" where
  "scale10 q e = (if 0 \<le> e then q * 10 ^ nat e else q / 10 ^ nat (- e))"

definition parseFloat :: "string \<Rightarrow> jsnum" where
  "parseFloat inputString =
     (let (neg, body) = strip_sign (dropWhile is_white inputString)
      in if take 8 body = ''Infinity'' then (if neg then NegInfinity else Infinity)
         else
           (let ip = takeWhile is_digit body;
                (fp, rest) = fraction_part (dropWhile is_digit body)
            in if ip = [] \<and> fp = [] then NaN
               else
                 (let v = scale10 (of_nat (digits_value (ip @ fp)) / 10 ^ length fp)
                            (exponent_part rest)
                  in js_number (if neg then - v else v))))"


section \<open>Data model\<close>

type_synonym pubkey = string

datatype tx_status = Pending | Confirmed | Failed

text \<open>\<^verbatim>\<open>interface TransactionHistory\<close>; the optional fields are options.\<close>

record TransactionHistory =
  type :: string
  signature :: string
  timestamp :: nat
  amount :: "jsnum option"
  recipient :: "string option"
  status :: tx_status

text \<open>The instruction builders of \<^verbatim>\<open>@solana/web3.js\<close> and \<^verbatim>\<open>@solana/spl-token\<close> are
  pure: an instruction is the constructor applied to the arguments the code passes.\<close>

datatype instruction =
    CreateAccount pubkey pubkey nat nat pubkey
      \<comment> \<open>fromPubkey, newAccountPubkey, space, lamports, programId\<close>
  | InitializeMint pubkey nat pubkey pubkey pubkey
      \<comment> \<open>mint, decimals, mintAuthority, freezeAuthority, programId\<close>
  | CreateAssociatedTokenAccount pubkey pubkey pubkey pubkey
      \<comment> \<open>payer, associatedToken, owner, mint\<close>
  | MintTo pubkey pubkey pubkey int
      \<comment> \<open>mint, destination, authority, amount\<close>
  | Transfer pubkey pubkey pubkey int "pubkey list" pubkey
      \<comment> \<open>source, destination, owner, amount, multiSigners, programId\<close>

record transaction =
  instructions :: "instruction list"
  recentBlockhash :: "string option"
  feePayer :: "pubkey option"
  signers :: "pubkey list"

definition MINT_SIZE :: nat where
  "MINT_SIZE = 82"

definition TOKEN_PROGRAM_ID :: pubkey where
  "TOKEN_PROGRAM_ID = ''TokenkegQfeZyiNwAJbNbGKPFXCWuBvf9Ss623VQ5DA''"

text \<open>A toast is the template literal the code passes: its literal pieces and the
  values interpolated into it.\<close>

datatype part = Str string | Number jsnum

datatype toast = ToastError "part list" | ToastSuccess "part list"

text \<open>The hooks of the component. \<open>publicKey\<close> and \<open>signTransaction\<close> come from
  \<^verbatim>\<open>useWallet()\<close> (\<open>signTransaction\<close> is true when the wallet offers the function),
  the others from \<^verbatim>\<open>useState\<close>; \<open>toasts\<close> is what has been handed to \<^verbatim>\<open>toast\<close>.
  The two balances are numbers that are always finite (a count of base units
  divided by \<open>1e9\<close>, or 0).\<close>

record session =
  publicKey :: "pubkey option"
  signTransaction :: bool
  solBalance :: rat
  tokenMint :: "pubkey option"
  tokenAccount :: "pubkey option"
  tokenBalance :: rat
  recipientAddress :: string
  transferAmount :: string
  mintAmount :: string
  isLoading :: bool
  transactionHistory :: "TransactionHistory list"
  toasts :: "toast list"

definition initial :: session where
  "initial =
     \<lparr>publicKey = None, signTransaction = False, solBalance = 0, tokenMint = None,
      tokenAccount = None, tokenBalance = 0, recipientAddress = [], transferAmount = [],
      mintAmount = [], isLoading = False, transactionHistory = [], toasts = []\<rparr>"

section \<open>Collaborator calls and control flow\<close>

text \<open>Every call that leaves the component (the RPC connection or the wallet) is
  logged, in order. The outcome of a call is supplied from outside: \<open>Inr\<close> the
  value it resolves to, \<open>Inl\<close> the message of the \<^verbatim>\<open>Error\<close> it throws. An operation
  is a sequence of steps on the session and the log that stops at the first
  exception. State setters that follow one another without an \<^verbatim>\<open>await\<close> between
  them take effect together (React 18 batches them). Operations are not
  interleaved: an event is handled when the operation before it has ended (the
  buttons are disabled while \<open>isLoading\<close>).\<close>

datatype call =
    GetBalance pubkey
  | GetAccount pubkey
  | GetMinimumBalanceForRentExemptMint
  | GetLatestBlockhash
  | SignTransaction transaction
  | SendRawTransaction transaction
  | ConfirmTransaction string

type_synonym world = "session \<times> call list"

type_synonym 'a action = "world \<Rightarrow> 'a outcome \<times> world"

definition await :: "call \<Rightarrow> 'a outcome \<Rightarrow> 'a action" where
  "await c r = (\<lambda>(s, cs). (r, (s, cs @ [c])))"

definition local_step :: "'a outcome \<Rightarrow> 'a action" where
  "local_step r = (\<lambda>w. (r, w))"

definition setState :: "(session \<Rightarrow> session) \<Rightarrow> unit action" where
  "setState f = (\<lambda>(s, cs). (Inr (), (f s, cs)))"

definition never_rejects :: "(world \<Rightarrow> world) \<Rightarrow> unit action" where
  "never_rejects f = (\<lambda>w. (Inr (), f w))"

definition and_then :: "'a action \<Rightarrow> ('a \<Rightarrow> 'b action) \<Rightarrow> 'b action" where
  "and_then m f = (\<lambda>w. case m w of (Inl msg, w') \<Rightarrow> (Inl msg, w') | (Inr x, w') \<Rightarrow> f x w')"

text \<open>\<^verbatim>\<open>try { await c } catch { ... }\<close> around a single call: whether it resolved.\<close>

definition resolves :: "call \<Rightarrow> 'a outcome \<Rightarrow> bool action" where
  "resolves c r = (\<lambda>(s, cs). (Inr (case r of Inl _ \<Rightarrow> False | Inr _ \<Rightarrow> True), (s, cs @ [c])))"

text \<open>\<^verbatim>\<open>try { body } catch (error) { handler } finally { setIsLoading(false) }\<close>: on
  an exception the handler runs on the state the body had reached; the log of
  calls is kept either way.\<close>

definition try_catch_finally :: "unit action \<Rightarrow> (string \<Rightarrow> session \<Rightarrow> session) \<Rightarrow> world \<Rightarrow> world" where
  "try_catch_finally body handler w =
     (case body w of
        (Inr _, (s, cs)) \<Rightarrow> (s\<lparr>isLoading := False\<rparr>, cs)
      | (Inl msg, (s, cs)) \<Rightarrow> ((handler msg s)\<lparr>isLoading := False\<rparr>, cs))"

text \<open>The two updaters of the history: the success path rewrites the record with
  the submitted signature, the \<^verbatim>\<open>catch\<close> blocks rewrite every record of a type.\<close>

definition confirm_signature :: "string \<Rightarrow> TransactionHistory list \<Rightarrow> TransactionHistory list" where
  "confirm_signature sig prev =
     map (\<lambda>tx. if signature tx = sig then tx\<lparr>status := Confirmed\<rparr> else tx) prev"

definition fail_type :: "string \<Rightarrow> TransactionHistory list \<Rightarrow> TransactionHistory list" where
  "fail_type ty prev =
     map (\<lambda>tx. if type tx = ty then tx\<lparr>status := Failed\<rparr> else tx) prev"

section \<open>Balance refresh\<close>

text \<open>
  \<^verbatim>\<open>fetchSolBalance\<close> and \<^verbatim>\<open>fetchTokenBalance\<close> are \<^verbatim>\<open>useCallback\<close> closures: they read the
  \<open>publicKey\<close> and \<open>tokenAccount\<close> of the render that created them, which are
  passed here as \<open>pk\<close> and \<open>acct\<close>. An operation of the same render calls the
  closure of that render, so it passes the values of the state it started from.
\<close>

text \<open>\<^verbatim>\<open>balance / 1e9\<close> and \<^verbatim>\<open>Number(accountInfo.amount) / 1e9\<close>: the count of base
  units (lamports read as a number, a u64 read as a \<^verbatim>\<open>bigint\<close>) becomes the nearest
  double, and the quotient is rounded. A count that the network can return is
  below \<open>2^64\<close>, so the result is finite.\<close>

definition div_1e9 :: "rat \<Rightarrow> rat" where
  "div_1e9 n = nearest (nearest n / 10 ^ 9)"

definition fetchSolBalance :: "pubkey option \<Rightarrow> nat outcome \<Rightarrow> world \<Rightarrow> world" where
  "fetchSolBalance pk getBalance = (\<lambda>(s, cs).
     case pk of
       None \<Rightarrow> (s, cs)
     | Some key \<Rightarrow>
         (case getBalance of
            Inr balance \<Rightarrow>
              (s\<lparr>solBalance := div_1e9 (of_nat balance)\<rparr>, cs @ [GetBalance key])
          | Inl msg \<Rightarrow>
              (s\<lparr>toasts := toasts s @ [ToastError [Str ''Failed to fetch balance: '', Str msg]]\<rparr>,
               cs @ [GetBalance key])))"

definition fetchTokenBalance :: "pubkey option \<Rightarrow> pubkey option \<Rightarrow> nat outcome \<Rightarrow> world \<Rightarrow> world" where
  "fetchTokenBalance pk acct getAccount = (\<lambda>(s, cs).
     case (pk, acct) of
       (Some _, Some a) \<Rightarrow>
         (case getAccount of
            Inr amt \<Rightarrow> (s\<lparr>tokenBalance := div_1e9 (of_nat amt)\<rparr>, cs @ [GetAccount a])
          | Inl _ \<Rightarrow> (s\<lparr>tokenBalance := 0\<rparr>, cs @ [GetAccount a]))
     | _ \<Rightarrow> (s, cs))"

section \<open>createToken\<close>

text \<open>What the collaborators answer during one \<^verbatim>\<open>createToken\<close>, in the order of the
  calls: \<^verbatim>\<open>Keypair.generate()\<close>, the rent read, the first blockhash, the wallet's
  signature, the submission (the signature string it returns), \<^verbatim>\<open>new Date()\<close>,
  the confirmation; then \<^verbatim>\<open>getAssociatedTokenAddress\<close> and the same four calls for
  the associated-account transaction; last the account read of
  \<^verbatim>\<open>fetchTokenBalance\<close>.\<close>

record create_env =
  ce_generate :: pubkey
  ce_rent :: "nat outcome"
  ce_blockhash :: "string outcome"
  ce_sign :: "unit outcome"
  ce_send :: "string outcome"
  ce_now :: nat
  ce_confirm :: "unit outcome"
  ce_ata :: "pubkey \<Rightarrow> pubkey \<Rightarrow> pubkey outcome"
  ce_ata_blockhash :: "string outcome"
  ce_ata_sign :: "unit outcome"
  ce_ata_send :: "string outcome"
  ce_ata_confirm :: "unit outcome"
  ce_account :: "nat outcome"

definition createToken_try :: "create_env \<Rightarrow> pubkey \<Rightarrow> pubkey option \<Rightarrow> unit action" where
  "createToken_try env pk acct0 =
     (let mintKeypair = ce_generate env in
      and_then (await GetMinimumBalanceForRentExemptMint (ce_rent env)) (\<lambda>lamports.
      and_then (await GetLatestBlockhash (ce_blockhash env)) (\<lambda>recentBlockhash.
      let transaction =
            \<lparr>instructions =
               [CreateAccount pk mintKeypair MINT_SIZE lamports TOKEN_PROGRAM_ID,
                InitializeMint mintKeypair 9 pk pk TOKEN_PROGRAM_ID],
             recentBlockhash = Some recentBlockhash, feePayer = Some pk, signers = []\<rparr> in
      and_then (await (SignTransaction transaction) (ce_sign env)) (\<lambda>_.
      let signed = transaction\<lparr>signers := [pk, mintKeypair]\<rparr> in
      and_then (await (SendRawTransaction signed) (ce_send env)) (\<lambda>sig.
      and_then (setState (\<lambda>s. s\<lparr>transactionHistory := transactionHistory s @
                  [\<lparr>type = ''Token Creation'', signature = sig, timestamp = ce_now env,
                    amount = None, recipient = None, status = Pending\<rparr>]\<rparr>)) (\<lambda>_.
      and_then (await (ConfirmTransaction sig) (ce_confirm env)) (\<lambda>_.
      and_then (local_step (ce_ata env mintKeypair pk)) (\<lambda>ata.
      and_then (await GetLatestBlockhash (ce_ata_blockhash env)) (\<lambda>ataBlockhash.
      let ataTransaction =
            \<lparr>instructions = [CreateAssociatedTokenAccount pk ata pk mintKeypair],
             recentBlockhash = Some ataBlockhash, feePayer = Some pk, signers = []\<rparr> in
      and_then (await (SignTransaction ataTransaction) (ce_ata_sign env)) (\<lambda>_.
      let signedAta = ataTransaction\<lparr>signers := [pk]\<rparr> in
      and_then (await (SendRawTransaction signedAta) (ce_ata_send env)) (\<lambda>ataSignature.
      and_then (await (ConfirmTransaction ataSignature) (ce_ata_confirm env)) (\<lambda>_.
      and_then (setState (\<lambda>s. s\<lparr>tokenMint := Some mintKeypair, tokenAccount := Some ata\<rparr>)) (\<lambda>_.
      and_then (never_rejects (fetchTokenBalance (Some pk) acct0 (ce_account env))) (\<lambda>_.
      and_then (setState (\<lambda>s. s\<lparr>transactionHistory :=
                  confirm_signature sig (transactionHistory s)\<rparr>)) (\<lambda>_.
      setState (\<lambda>s. s\<lparr>toasts := toasts s @
                  [ToastSuccess [Str ''Token created successfully!'']]\<rparr>))))))))))))))))"

definition createToken_catch :: "string \<Rightarrow> session \<Rightarrow> session" where
  "createToken_catch msg s =
     s\<lparr>toasts := toasts s @ [ToastError [Str ''Token creation failed: '', Str msg]],
       transactionHistory := fail_type ''Token Creation'' (transactionHistory s)\<rparr>"

definition createToken :: "create_env \<Rightarrow> session \<Rightarrow> world" where
  "createToken env s =
     (case publicKey s of
        Some pk \<Rightarrow>
          if signTransaction s then
            try_catch_finally (createToken_try env pk (tokenAccount s)) createToken_catch
              (s\<lparr>isLoading := True\<rparr>, [])
          else (s\<lparr>toasts := toasts s @ [ToastError [Str ''Wallet not connected'']]\<rparr>, [])
      | None \<Rightarrow> (s\<lparr>toasts := toasts s @ [ToastError [Str ''Wallet not connected'']]\<rparr>, []))"

section \<open>mintTokens\<close>

record mint_env =
  me_blockhash :: "string outcome"
  me_sign :: "unit outcome"
  me_send :: "string outcome"
  me_now :: nat
  me_confirm :: "unit outcome"
  me_account :: "nat outcome"

definition mintTokens_try ::
    "mint_env \<Rightarrow> pubkey \<Rightarrow> pubkey \<Rightarrow> pubkey \<Rightarrow> jsnum \<Rightarrow> unit action" where
  "mintTokens_try env pk mint acct amt =
     and_then (local_step (BigInt (Math_floor (times_1e9 amt)))) (\<lambda>baseUnits.
     and_then (await GetLatestBlockhash (me_blockhash env)) (\<lambda>blockhash.
     let transaction =
           \<lparr>instructions = [MintTo mint acct pk baseUnits],
            recentBlockhash = Some blockhash, feePayer = Some pk, signers = []\<rparr> in
     and_then (await (SignTransaction transaction) (me_sign env)) (\<lambda>_.
     let signed = transaction\<lparr>signers := [pk]\<rparr> in
     and_then (await (SendRawTransaction signed) (me_send env)) (\<lambda>sig.
     and_then (setState (\<lambda>s. s\<lparr>transactionHistory := transactionHistory s @
                 [\<lparr>type = ''Token Mint'', signature = sig, timestamp = me_now env,
                   amount = Some amt, recipient = None, status = Pending\<rparr>]\<rparr>)) (\<lambda>_.
     and_then (await (ConfirmTransaction sig) (me_confirm env)) (\<lambda>_.
     and_then (never_rejects (fetchTokenBalance (Some pk) (Some acct) (me_account env))) (\<lambda>_.
     and_then (setState (\<lambda>s. s\<lparr>transactionHistory :=
                 confirm_signature sig (transactionHistory s)\<rparr>)) (\<lambda>_.
     and_then (setState (\<lambda>s. s\<lparr>toasts := toasts s @
                 [ToastSuccess [Str ''Successfully minted '', Number amt, Str '' tokens!'']]\<rparr>)) (\<lambda>_.
     setState (\<lambda>s. s\<lparr>mintAmount := []\<rparr>))))))))))"

definition mintTokens_catch :: "string \<Rightarrow> session \<Rightarrow> session" where
  "mintTokens_catch msg s =
     s\<lparr>toasts := toasts s @ [ToastError [Str ''Failed to mint tokens: '', Str msg]],
       transactionHistory := fail_type ''Token Mint'' (transactionHistory s)\<rparr>"

definition mintTokens :: "mint_env \<Rightarrow> session \<Rightarrow> world" where
  "mintTokens env s =
     (case (publicKey s, tokenMint s, tokenAccount s) of
        (Some pk, Some mint, Some acct) \<Rightarrow>
          if signTransaction s then
            (let amt = parseFloat (mintAmount s) in
             if isNaN amt \<or> js_le amt (Num 0) then
               (s\<lparr>toasts := toasts s @
                   [ToastError [Str ''Please enter a valid amount greater than 0'']]\<rparr>, [])
             else
               try_catch_finally (mintTokens_try env pk mint acct amt) mintTokens_catch
                 (s\<lparr>isLoading := True\<rparr>, []))
          else (s\<lparr>toasts := toasts s @ [ToastError [Str ''Missing required parameters'']]\<rparr>, [])
      | _ \<Rightarrow> (s\<lparr>toasts := toasts s @ [ToastError [Str ''Missing required parameters'']]\<rparr>, []))"

section \<open>transferTokens\<close>

text \<open>\<open>te_PublicKey\<close> is the constructor \<^verbatim>\<open>new PublicKey(string)\<close>, which throws on a
  string that is not an address; \<open>te_probe\<close> is the read of the recipient's
  associated account.\<close>

record transfer_env =
  te_PublicKey :: "string \<Rightarrow> pubkey outcome"
  te_ata :: "pubkey \<Rightarrow> pubkey \<Rightarrow> pubkey outcome"
  te_probe :: "nat outcome"
  te_blockhash :: "string outcome"
  te_sign :: "unit outcome"
  te_send :: "string outcome"
  te_now :: nat
  te_confirm :: "unit outcome"
  te_account :: "nat outcome"

definition transferTokens_try ::
    "transfer_env \<Rightarrow> pubkey \<Rightarrow> pubkey \<Rightarrow> pubkey \<Rightarrow> string \<Rightarrow> jsnum \<Rightarrow> unit action" where
  "transferTokens_try env pk mint acct rcpt amt =
     and_then (local_step (te_PublicKey env rcpt)) (\<lambda>recipientPubkey.
     and_then (local_step (te_ata env mint recipientPubkey)) (\<lambda>recipientTokenAccount.
     and_then (resolves (GetAccount recipientTokenAccount) (te_probe env)) (\<lambda>exists.
     let created =
           (if exists then []
            else [CreateAssociatedTokenAccount pk recipientTokenAccount recipientPubkey mint]) in
     and_then (local_step (BigInt (Math_floor (times_1e9 amt)))) (\<lambda>baseUnits.
     and_then (await GetLatestBlockhash (te_blockhash env)) (\<lambda>blockhash.
     let transaction =
           \<lparr>instructions =
              created @ [Transfer acct recipientTokenAccount pk baseUnits [] TOKEN_PROGRAM_ID],
            recentBlockhash = Some blockhash, feePayer = Some pk, signers = []\<rparr> in
     and_then (await (SignTransaction transaction) (te_sign env)) (\<lambda>_.
     let signed = transaction\<lparr>signers := [pk]\<rparr> in
     and_then (await (SendRawTransaction signed) (te_send env)) (\<lambda>sig.
     and_then (setState (\<lambda>s. s\<lparr>transactionHistory := transactionHistory s @
                 [\<lparr>type = ''Token Transfer'', signature = sig, timestamp = te_now env,
                   amount = Some amt, recipient = Some rcpt, status = Pending\<rparr>]\<rparr>)) (\<lambda>_.
     and_then (await (ConfirmTransaction sig) (te_confirm env)) (\<lambda>_.
     and_then (never_rejects (fetchTokenBalance (Some pk) (Some acct) (te_account env))) (\<lambda>_.
     and_then (setState (\<lambda>s. s\<lparr>transactionHistory :=
                 confirm_signature sig (transactionHistory s)\<rparr>)) (\<lambda>_.
     and_then (setState (\<lambda>s. s\<lparr>toasts := toasts s @
                 [ToastSuccess [Str ''Transferred '', Number amt, Str '' tokens successfully!'']]\<rparr>)) (\<lambda>_.
     setState (\<lambda>s. s\<lparr>transferAmount := []\<rparr>)))))))))))))"

definition transferTokens_catch :: "string \<Rightarrow> session \<Rightarrow> session" where
  "transferTokens_catch msg s =
     s\<lparr>toasts := toasts s @ [ToastError [Str ''Transfer failed: '', Str msg]],
       transactionHistory := fail_type ''Token Transfer'' (transactionHistory s)\<rparr>"

definition fill_all_fields :: toast where
  "fill_all_fields = ToastError [Str ''Please connect wallet and fill all fields'']"

definition transferTokens :: "transfer_env \<Rightarrow> session \<Rightarrow> world" where
  "transferTokens env s =
     (case (publicKey s, tokenMint s, tokenAccount s) of
        (Some pk, Some mint, Some acct) \<Rightarrow>
          if \<not> signTransaction s \<or> recipientAddress s = [] \<or> transferAmount s = [] then
            (s\<lparr>toasts := toasts s @ [fill_all_fields]\<rparr>, [])
          else
            (let amt = parseFloat (transferAmount s) in
             if isNaN amt then
               (s\<lparr>toasts := toasts s @ [ToastError [Str ''Please enter a valid amount'']]\<rparr>, [])
             else if js_le amt (Num 0) then
               (s\<lparr>toasts := toasts s @ [ToastError [Str ''Amount must be greater than 0'']]\<rparr>, [])
             else if js_gt amt (Num (tokenBalance s)) then
               (s\<lparr>toasts := toasts s @
                   [ToastError [Str ''Insufficient balance. You only have '',
                                Number (Num (tokenBalance s)), Str '' tokens'']]\<rparr>, [])
             else
               try_catch_finally (transferTokens_try env pk mint acct (recipientAddress s) amt)
                 transferTokens_catch (s\<lparr>isLoading := True\<rparr>, []))
      | _ \<Rightarrow> (s\<lparr>toasts := toasts s @ [fill_all_fields]\<rparr>, []))"

section \<open>Sessions\<close>

text \<open>What can happen to a session: the three operations, the two refreshes (run
  by the interval timer and by the effects), typing into the three fields, and
  the wallet connecting or disconnecting.\<close>

datatype event =
    CreateToken create_env
  | MintTokens mint_env
  | TransferTokens transfer_env
  | FetchSolBalance "nat outcome"
  | FetchTokenBalance "nat outcome"
  | SetMintAmount string
  | SetRecipientAddress string
  | SetTransferAmount string
  | Wallet "pubkey option" bool

fun step :: "session \<Rightarrow> event \<Rightarrow> session" where
  "step s (CreateToken env) = fst (createToken env s)"
| "step s (MintTokens env) = fst (mintTokens env s)"
| "step s (TransferTokens env) = fst (transferTokens env s)"
| "step s (FetchSolBalance r) = fst (fetchSolBalance (publicKey s) r (s, []))"
| "step s (FetchTokenBalance r) = fst (fetchTokenBalance (publicKey s) (tokenAccount s) r (s, []))"
| "step s (SetMintAmount v) = s\<lparr>mintAmount := v\<rparr>"
| "step s (SetRecipientAddress v) = s\<lparr>recipientAddress := v\<rparr>"
| "step s (SetTransferAmount v) = s\<lparr>transferAmount := v\<rparr>"
| "step s (Wallet pk can_sign) = s\<lparr>publicKey := pk, signTransaction := can_sign\<rparr>"

definition run :: "session \<Rightarrow> event list \<Rightarrow> session" where
  "run s evs = foldl step s evs"

text \<open>Reading a log of calls: the transactions handed to the wallet and the
  transactions submitted to the network.\<close>

fun sign_requests :: "call list \<Rightarrow> transaction list" where
  "sign_requests [] = []"
| "sign_requests (SignTransaction tx # cs) = tx # sign_requests cs"
| "sign_requests (_ # cs) = sign_requests cs"

fun submitted :: "call list \<Rightarrow> transaction list" where
  "submitted [] = []"
| "submitted (SendRawTransaction tx # cs) = tx # submitted cs"
| "submitted (_ # cs) = submitted cs"

text \<open>The accounts that the \<open>CreateAccount\<close> instructions of a list of transactions
  allocate: for \<^verbatim>\<open>createToken\<close>, the mint addresses.\<close>

fun new_accounts :: "instruction list \<Rightarrow> pubkey list" where
  "new_accounts [] = []"
| "new_accounts (CreateAccount _ new _ _ _ # is) = new # new_accounts is"
| "new_accounts (_ # is) = new_accounts is"

definition mint_addresses :: "call list \<Rightarrow> pubkey list" where
  "mint_addresses cs = concat (map (\<lambda>tx. new_accounts (instructions tx)) (submitted cs))"

section \<open>Example sessions\<close>

text \<open>A wallet, collaborators that answer every call, and the sessions they lead
  to; the theorems below are instantiated on them.\<close>

definition alice :: pubkey where
  "alice = ''Alice''"

definition create_ok :: create_env where
  "create_ok =
     \<lparr>ce_generate = ''Mint1'', ce_rent = Inr 1461600, ce_blockhash = Inr ''hash1'',
      ce_sign = Inr (), ce_send = Inr ''sigC1'', ce_now = 1, ce_confirm = Inr (),
      ce_ata = (\<lambda>mint owner. Inr (''ata-'' @ owner)), ce_ata_blockhash = Inr ''hash2'',
      ce_ata_sign = Inr (), ce_ata_send = Inr ''sigC2'', ce_ata_confirm = Inr (),
      ce_account = Inr 0\<rparr>"

definition mint_ok :: mint_env where
  "mint_ok =
     \<lparr>me_blockhash = Inr ''hash3'', me_sign = Inr (), me_send = Inr ''sigM1'', me_now = 2,
      me_confirm = Inr (), me_account = Inr 10000000000\<rparr>"

definition transfer_ok :: transfer_env where
  "transfer_ok =
     \<lparr>te_PublicKey = (\<lambda>s. if s = ''Bob'' then Inr s else Inl ''Invalid public key input''),
      te_ata = (\<lambda>mint owner. Inr (''ata-'' @ owner)),
      te_probe = Inl ''TokenAccountNotFoundError'',
      te_blockhash = Inr ''hash4'', te_sign = Inr (), te_send = Inr ''sigT1'', te_now = 3,
      te_confirm = Inr (), te_account = Inr 5000000000\<rparr>"

definition mint_rejected :: mint_env where
  "mint_rejected = mint_ok\<lparr>me_sign := Inl ''User rejected the request.''\<rparr>"


definition create_unconfirmed :: create_env where
  "create_unconfirmed = create_ok\<lparr>ce_ata_confirm := Inl ''Transaction was not confirmed''\<rparr>"

definition logged_in :: session where
  "logged_in = run initial [Wallet (Some alice) True]"

definition with_token :: session where
  "with_token = run logged_in [CreateToken create_ok]"

definition minted :: session where
  "minted = run with_token [SetMintAmount ''10'', MintTokens mint_ok]"


definition transferred :: session where
  "transferred =
     run minted [SetRecipientAddress ''Bob'', SetTransferAmount ''5'', TransferTokens transfer_ok]"

section \<open>Rules for running the operations\<close>

lemma and_then_await:
  "and_then (await c r) f (s, cs) =
     (case r of Inl m \<Rightarrow> (Inl m, (s, cs @ [c])) | Inr x \<Rightarrow> f x (s, cs @ [c]))"
  by (simp add: and_then_def await_def split: sum.splits)

lemma and_then_local_step:
  "and_then (local_step r) f w = (case r of Inl m \<Rightarrow> (Inl m, w) | Inr x \<Rightarrow> f x w)"
  by (simp add: and_then_def local_step_def split: sum.splits)

lemma and_then_setState: "and_then (setState g) f (s, cs) = f () (g s, cs)"
  by (simp add: and_then_def setState_def)

lemma and_then_never_rejects: "and_then (never_rejects g) f w = f () (g w)"
  by (simp add: and_then_def never_rejects_def)

lemma and_then_resolves:
  "and_then (resolves c r) f (s, cs) =
     f (case r of Inl _ \<Rightarrow> False | Inr _ \<Rightarrow> True) (s, cs @ [c])"
  by (simp add: and_then_def resolves_def)

lemma setState_apply: "setState g (s, cs) = (Inr (), (g s, cs))"
  by (simp add: setState_def)

lemmas action_simps = and_then_await and_then_local_step and_then_setState
  and_then_never_rejects and_then_resolves setState_apply Let_def

text \<open>Rules that evaluate the rounding on numerals.\<close>

lemma bit_length_0: "bit_length 0 = 0"
  by (simp add: bit_length.simps)

lemma bit_length_1: "bit_length 1 = 1"
  by (simp add: bit_length.simps)

lemma bit_length_Suc_0: "bit_length (Suc 0) = Suc 0"
  by (simp add: bit_length.simps)

lemma bit_length_numeral: "bit_length (numeral k) = Suc (bit_length (numeral k div 2))"
  by (subst bit_length.simps) simp

lemma floor_rat_numeral: "\<lfloor>numeral a / numeral b :: rat\<rfloor> = numeral a div numeral b"
  by (metis floor_divide_of_int_eq of_int_numeral)

lemma ceiling_rat_numeral:
  "\<lceil>numeral a / numeral b :: rat\<rceil> = - ((- numeral a) div numeral b)"
  by (metis ceiling_def floor_divide_of_int_eq minus_divide_left of_int_minus of_int_numeral)

lemmas number_eval = js_number_def nearest_def binary_exponent_def round_half_even_def
  pow2_def div_1e9_def bit_length_0 bit_length_1 bit_length_Suc_0 bit_length_numeral
  floor_rat_numeral ceiling_rat_numeral Let_def

lemmas parseFloat_eval = parseFloat_def strip_sign_def fraction_part_def exponent_part_def
  scale10_def digits_value_def is_digit_def is_white_def number_eval

text \<open>Doubles that the examples meet, as \<^verbatim>\<open>node\<close> prints them: 4.1 is
  4.0999999999999996447..., and 4.1 * 1e9 is 4099999999.9999995.\<close>

lemma nearest_values:
  "nearest 5 = 5"
  "nearest (5 / 2) = 5 / 2"
  "nearest (1 / 10) = 3602879701896397 / 36028797018963968"
  "nearest (3 / 10) = 5404319552844595 / 18014398509481984"
  "nearest (41 / 10) = 2308094809027379 / 562949953421312"
  "nearest (2308094809027379 / 562949953421312 * 10 ^ 9) = 8598323199999999 / 2097152"
  "nearest (- (41 / 10)) = - (2308094809027379 / 562949953421312)"
  by (simp_all add: number_eval)

section \<open>The rounding\<close>

text \<open>\<open>binary_exponent\<close> is the exponent of the power of two at or below its
  argument, so \<open>nearest q\<close> is a multiple of the spacing of the doubles around
  \<open>q\<close>, at most half a spacing away from \<open>q\<close>; on a tie \<open>round_half_even\<close> takes
  the even multiple.\<close>

lemma bit_length_bounds:
  "0 < n \<Longrightarrow> 2 ^ (bit_length n - 1) \<le> n \<and> n < 2 ^ bit_length n"
proof (induction n rule: bit_length.induct)
  case (1 n)
  show ?case
  proof (cases "n div 2 = 0")
    case True
    with "1.prems" have "n = 1" by (simp add: div_eq_0_iff) 
    then show ?thesis by (simp add: bit_length.simps)
  next
    case False
    then have pos: "0 < n div 2" by simp
    have n0: "n \<noteq> 0" using "1.prems" by simp
    from "1.IH" [OF n0 pos]
    have ih: "2 ^ (bit_length (n div 2) - 1) \<le> n div 2" "n div 2 < 2 ^ bit_length (n div 2)"
      by simp_all
    have bl: "bit_length n = Suc (bit_length (n div 2))"
      using n0 by (subst bit_length.simps) simp
    have blpos: "0 < bit_length (n div 2)"
      using pos by (subst bit_length.simps) simp
    have pw: "(2::nat) ^ bit_length (n div 2) = 2 * 2 ^ (bit_length (n div 2) - 1)"
      using blpos by (cases "bit_length (n div 2)") simp_all
    have lo: "(2::nat) ^ bit_length (n div 2) \<le> n"
    proof -
      have "2 * (n div 2) \<le> n" by presburger
      moreover have "2 * 2 ^ (bit_length (n div 2) - 1) \<le> 2 * (n div 2)" using ih(1) by simp
      ultimately show ?thesis using pw by linarith
    qed
    have "n < 2 * (n div 2 + 1)" by presburger
    also have "\<dots> \<le> 2 * 2 ^ bit_length (n div 2)" using ih(2) by simp
    finally have hi: "n < 2 ^ Suc (bit_length (n div 2))" by simp
    show ?thesis using lo hi by (simp add: bl)
  qed
qed

lemma round_half_even_error: "\<bar>of_int (round_half_even x) - x\<bar> \<le> 1 / 2"
proof -
  have a: "of_int \<lfloor>x\<rfloor> \<le> x" and b: "x < of_int \<lfloor>x\<rfloor> + 1" by linarith+
  show ?thesis
    using a b
    by (cases "x - of_int \<lfloor>x\<rfloor> < 1 / 2"; cases "1 / 2 < x - of_int \<lfloor>x\<rfloor>"; cases "even \<lfloor>x\<rfloor>";
        simp add: round_half_even_def Let_def; linarith)
qed

lemma pow2_pos: "0 < pow2 e"
  by (simp add: pow2_def)

lemma pow2_Suc: "pow2 (e + 1) = 2 * pow2 e"
proof (cases "0 \<le> e")
  case True
  then show ?thesis by (simp add: pow2_def nat_add_distrib)
next
  case False
  then have "nat (- e) = Suc (nat (- (e + 1)))" by simp
  then show ?thesis using False by (auto simp: pow2_def)
qed

lemma binary_exponent_bounds:
  assumes "0 < q"
  shows "pow2 (binary_exponent q) \<le> q \<and> q < pow2 (binary_exponent q + 1)"
proof (cases "1 \<le> q")
  case True
  define n where "n = nat \<lfloor>q\<rfloor>"
  have npos: "0 < n" using True by (simp add: n_def)
  have nq: "of_nat n \<le> q" "q < of_nat n + 1"
    using True unfolding n_def by (simp_all add: of_nat_nat) linarith+
  from bit_length_bounds [OF npos]
  have bl: "2 ^ (bit_length n - 1) \<le> n" "n < 2 ^ bit_length n" by simp_all
  have blpos: "0 < bit_length n" using npos by (subst bit_length.simps) simp
  have e: "binary_exponent q = int (bit_length n) - 1"
    using True by (simp add: binary_exponent_def n_def)
  have p1: "pow2 (binary_exponent q) = 2 ^ (bit_length n - 1)"
    using blpos by (simp add: e pow2_def nat_diff_distrib')
  have p2: "pow2 (binary_exponent q + 1) = 2 ^ bit_length n"
    by (simp add: e pow2_def)
  have "(2::rat) ^ (bit_length n - 1) \<le> of_nat n"
    using bl(1) by (metis of_nat_le_iff of_nat_numeral of_nat_power)
  moreover have "of_nat n + 1 \<le> (2::rat) ^ bit_length n"
  proof -
    have "n + 1 \<le> 2 ^ bit_length n" using bl(2) by simp
    then have "of_nat (n + 1) \<le> (of_nat (2 ^ bit_length n) :: rat)" by (simp only: of_nat_le_iff)
    then show ?thesis by simp
  qed
  ultimately show ?thesis using nq unfolding p1 p2 by linarith
next
  case False
  define p where "p = 1 / q"
  define N where "N = \<lceil>p\<rceil>"
  have p1: "1 < p" using False assms by (simp add: p_def)
  have N: "of_int N - 1 < p" "p \<le> of_int N" unfolding N_def by linarith+
  have N2: "2 \<le> N" using p1 N(2) by linarith
  define n where "n = nat (N - 1)"
  have npos: "0 < n" using N2 by (simp add: n_def)
  have nN: "of_nat n = (of_int N :: rat) - 1" using N2 by (simp add: n_def of_nat_nat)
  from bit_length_bounds [OF npos]
  have bl: "2 ^ (bit_length n - 1) \<le> n" "n < 2 ^ bit_length n" by simp_all
  have blpos: "0 < bit_length n" using npos by (subst bit_length.simps) simp
  have e: "binary_exponent q = - int (bit_length n)"
    using False by (simp add: binary_exponent_def n_def N_def p_def)
  have lo: "(2::rat) ^ (bit_length n - 1) \<le> of_nat n"
    using bl(1) by (metis of_nat_le_iff of_nat_numeral of_nat_power)
  have hi: "of_nat n + 1 \<le> (2::rat) ^ bit_length n"
  proof -
    have "n + 1 \<le> 2 ^ bit_length n" using bl(2) by simp
    then have "of_nat (n + 1) \<le> (of_nat (2 ^ bit_length n) :: rat)" by (simp only: of_nat_le_iff)
    then show ?thesis by simp
  qed
  have ple: "p \<le> 2 ^ bit_length n" using N(2) nN hi by linarith
  have pgt: "2 ^ (bit_length n - 1) < p" using N(1) nN lo by linarith
  have q: "q = 1 / p" using assms by (simp add: p_def)
  have ppos: "0 < p" using p1 by simp
  have a: "pow2 (binary_exponent q) = 1 / 2 ^ bit_length n"
    using blpos by (simp add: e pow2_def)
  have b: "pow2 (binary_exponent q + 1) = 1 / 2 ^ (bit_length n - 1)"
  proof -
    have "pow2 (binary_exponent q + 1) = 2 * pow2 (binary_exponent q)" by (rule pow2_Suc)
    also have "\<dots> = 2 / 2 ^ bit_length n" by (simp add: a)
    also have "\<dots> = 1 / 2 ^ (bit_length n - 1)"
      using blpos by (cases "bit_length n") simp_all
    finally show ?thesis .
  qed
  have l: "1 / 2 ^ bit_length n \<le> q"
    unfolding q using ple ppos by (simp add: frac_le)
  have u: "q < 1 / 2 ^ (bit_length n - 1)"
    unfolding q using pgt by (simp add: frac_less2)
  show ?thesis unfolding a b using l u by blast
qed

lemma nearest_spacing:
  assumes "q \<noteq> 0"
  shows "\<exists>m. nearest q = of_int m * pow2 (max (binary_exponent \<bar>q\<bar>) (- 1022) - 52)
           \<and> \<bar>of_int m - q / pow2 (max (binary_exponent \<bar>q\<bar>) (- 1022) - 52)\<bar> \<le> 1 / 2"
proof -
  define ulp where "ulp = pow2 (max (binary_exponent \<bar>q\<bar>) (- 1022) - 52)"
  define m where "m = round_half_even (\<bar>q\<bar> / ulp)"
  have ulp: "0 < ulp" unfolding ulp_def by (rule pow2_pos)
  have err: "\<bar>of_int m - \<bar>q\<bar> / ulp\<bar> \<le> 1 / 2"
    unfolding m_def by (rule round_half_even_error)
  show ?thesis
  proof (cases "0 < q")
    case True
    then have "nearest q = of_int m * ulp"
      by (simp add: nearest_def Let_def ulp_def m_def)
    moreover have "\<bar>of_int m - q / ulp\<bar> \<le> 1 / 2" using err True by simp
    ultimately show ?thesis unfolding ulp_def by blast
  next
    case False
    then have neg: "q < 0" using assms by simp
    then have "nearest q = of_int (- m) * ulp"
      by (simp add: nearest_def Let_def ulp_def m_def)
    moreover have "\<bar>of_int (- m) - q / ulp\<bar> \<le> 1 / 2"
    proof -
      have "\<bar>q\<bar> / ulp = - (q / ulp)" using neg by simp
      then have "\<bar>of_int m + q / ulp\<bar> \<le> 1 / 2" using err by simp
      moreover have "\<bar>of_int (- m) - q / ulp\<bar> = \<bar>of_int m + q / ulp\<bar>"
        by (simp add: abs_if)
      ultimately show ?thesis by simp
    qed
    ultimately show ?thesis unfolding ulp_def by blast
  qed
qed

section \<open>The example sessions, evaluated\<close>

lemmas run_eval = run_def createToken_def createToken_try_def createToken_catch_def
  mintTokens_def mintTokens_try_def mintTokens_catch_def
  transferTokens_def transferTokens_try_def transferTokens_catch_def
  try_catch_finally_def fetchTokenBalance_def fetchSolBalance_def
  confirm_signature_def fail_type_def isNaN_def times_1e9_def Math_floor_def BigInt_def
  MINT_SIZE_def TOKEN_PROGRAM_ID_def fill_all_fields_def

lemma logged_in_eval:
  "logged_in =
     \<lparr>publicKey = Some ''Alice'', signTransaction = True, solBalance = 0, tokenMint = None,
      tokenAccount = None, tokenBalance = 0, recipientAddress = [], transferAmount = [],
      mintAmount = [], isLoading = False, transactionHistory = [], toasts = []\<rparr>"
  by (simp add: logged_in_def run_eval initial_def alice_def)

lemma with_token_eval:
  "with_token =
     \<lparr>publicKey = Some ''Alice'', signTransaction = True, solBalance = 0,
      tokenMint = Some ''Mint1'', tokenAccount = Some ''ata-Alice'', tokenBalance = 0,
      recipientAddress = [], transferAmount = [], mintAmount = [], isLoading = False,
      transactionHistory =
        [\<lparr>type = ''Token Creation'', signature = ''sigC1'', timestamp = 1, amount = None,
          recipient = None, status = Confirmed\<rparr>],
      toasts = [ToastSuccess [Str ''Token created successfully!'']]\<rparr>"
  by (simp add: with_token_def logged_in_eval run_eval action_simps create_ok_def)

lemma minted_eval:
  "minted =
     \<lparr>publicKey = Some ''Alice'', signTransaction = True, solBalance = 0,
      tokenMint = Some ''Mint1'', tokenAccount = Some ''ata-Alice'', tokenBalance = 10,
      recipientAddress = [], transferAmount = [], mintAmount = [], isLoading = False,
      transactionHistory =
        [\<lparr>type = ''Token Creation'', signature = ''sigC1'', timestamp = 1, amount = None,
          recipient = None, status = Confirmed\<rparr>,
         \<lparr>type = ''Token Mint'', signature = ''sigM1'', timestamp = 2, amount = Some (Num 10),
          recipient = None, status = Confirmed\<rparr>],
      toasts =
        [ToastSuccess [Str ''Token created successfully!''],
         ToastSuccess [Str ''Successfully minted '', Number (Num 10), Str '' tokens!'']]\<rparr>"
  by (simp add: minted_def with_token_eval run_eval action_simps mint_ok_def parseFloat_eval)

lemma transferred_eval:
  "transferred =
     \<lparr>publicKey = Some ''Alice'', signTransaction = True, solBalance = 0,
      tokenMint = Some ''Mint1'', tokenAccount = Some ''ata-Alice'', tokenBalance = 5,
      recipientAddress = ''Bob'', transferAmount = [], mintAmount = [], isLoading = False,
      transactionHistory =
        [\<lparr>type = ''Token Creation'', signature = ''sigC1'', timestamp = 1, amount = None,
          recipient = None, status = Confirmed\<rparr>,
         \<lparr>type = ''Token Mint'', signature = ''sigM1'', timestamp = 2, amount = Some (Num 10),
          recipient = None, status = Confirmed\<rparr>,
         \<lparr>type = ''Token Transfer'', signature = ''sigT1'', timestamp = 3,
          amount = Some (Num 5), recipient = Some ''Bob'', status = Confirmed\<rparr>],
      toasts =
        [ToastSuccess [Str ''Token created successfully!''],
         ToastSuccess [Str ''Successfully minted '', Number (Num 10), Str '' tokens!''],
         ToastSuccess [Str ''Transferred '', Number (Num 5), Str '' tokens successfully!'']]\<rparr>"
  by (simp add: transferred_def minted_eval run_eval action_simps transfer_ok_def parseFloat_eval)


section \<open>Operations on a disconnected wallet\<close>

text \<open>
  Claim C3. When the wallet session is absent (no public key, or no signing
  capability), each of \<^verbatim>\<open>createToken\<close>, \<^verbatim>\<open>mintTokens\<close> and \<^verbatim>\<open>transferTokens\<close> reports the
  error of its connection guard and does nothing else: the log of collaborator
  calls is empty and the session is the one it started from with that one error
  toast added, so the transaction history has no new record.
\<close>

theorem disconnected_no_calls_no_records:
  assumes "publicKey s = None \<or> \<not> signTransaction s"
  shows "createToken ce s =
           (s\<lparr>toasts := toasts s @ [ToastError [Str ''Wallet not connected'']]\<rparr>, [])
       \<and> mintTokens me s =
           (s\<lparr>toasts := toasts s @ [ToastError [Str ''Missing required parameters'']]\<rparr>, [])
       \<and> transferTokens te s = (s\<lparr>toasts := toasts s @ [fill_all_fields]\<rparr>, [])"
  using assms
  by (auto simp: createToken_def mintTokens_def transferTokens_def split: option.splits)

theorem disconnected_no_calls_no_records_witness:
  "(publicKey initial = None \<or> \<not> signTransaction initial)
   \<and> createToken create_ok initial =
       (initial\<lparr>toasts := [ToastError [Str ''Wallet not connected'']]\<rparr>, [])
   \<and> mintTokens mint_ok initial =
       (initial\<lparr>toasts := [ToastError [Str ''Missing required parameters'']]\<rparr>, [])
   \<and> transferTokens transfer_ok initial = (initial\<lparr>toasts := [fill_all_fields]\<rparr>, [])"
  using disconnected_no_calls_no_records [of initial create_ok mint_ok transfer_ok]
  by (simp add: initial_def)

section \<open>A refresh whose read fails\<close>

text \<open>
  Claim C8, as the code has it. A SOL refresh whose read fails keeps every field
  and adds one error toast. A token refresh whose read fails does not keep the
  stored balance: its \<^verbatim>\<open>catch\<close> block sets the token balance to 0, adds no toast and
  changes nothing else. With no public key (or, for the token refresh, no token
  account) neither refresh does anything.
\<close>

theorem failed_refresh_frame:
  "step s (FetchSolBalance (Inl msg)) =
     (if publicKey s = None then s
      else s\<lparr>toasts := toasts s @ [ToastError [Str ''Failed to fetch balance: '', Str msg]]\<rparr>)
   \<and> step s (FetchTokenBalance (Inl msg)) =
     (if publicKey s = None \<or> tokenAccount s = None then s else s\<lparr>tokenBalance := 0\<rparr>)"
  by (auto simp: fetchSolBalance_def fetchTokenBalance_def split: option.splits)

theorem failed_refresh_frame_witness:
  "step minted (FetchSolBalance (Inl ''timeout'')) =
     minted\<lparr>toasts := toasts minted @
       [ToastError [Str ''Failed to fetch balance: '', Str ''timeout'']]\<rparr>
   \<and> step minted (FetchTokenBalance (Inl ''timeout'')) = minted\<lparr>tokenBalance := 0\<rparr>"
  using failed_refresh_frame [of minted "''timeout''"]
  by (simp add: minted_eval)

text \<open>Claim C8 as stated fails: after a mint the stored token balance is 10, and a
  token refresh whose read fails leaves 0.\<close>

theorem failed_token_refresh_resets_balance:
  "tokenBalance minted = 10
   \<and> tokenBalance (step minted (FetchTokenBalance (Inl ''Network request failed''))) = 0
   \<and> tokenBalance (step minted (FetchTokenBalance (Inl ''Network request failed'')))
       \<noteq> tokenBalance minted"
  by (simp add: minted_eval fetchTokenBalance_def)

section \<open>Records rewritten by a later failure\<close>

text \<open>
  Claim C1 says that a record that has reached Confirmed never becomes Failed.
  The \<^verbatim>\<open>catch\<close> block of each operation marks every record of its type as failed,
  not the record of the failing call. Here a mint is confirmed (signature
  \<open>sigM1\<close>); the wallet then rejects a second mint, which never gets a record;
  the history still has two records and the confirmed mint is now Failed.
\<close>

theorem confirmed_mint_record_becomes_failed:
  "map status (transactionHistory minted) = [Confirmed, Confirmed]
   \<and> map signature (transactionHistory minted) = [''sigC1'', ''sigM1'']
   \<and> map status (transactionHistory (run minted [SetMintAmount ''1'', MintTokens mint_rejected]))
       = [Confirmed, Failed]
   \<and> map signature (transactionHistory (run minted [SetMintAmount ''1'', MintTokens mint_rejected]))
       = [''sigC1'', ''sigM1'']"
  by (simp add: minted_eval run_eval action_simps mint_rejected_def mint_ok_def parseFloat_eval)

text \<open>
  Claim C5 says that a transfer to a string that is not an address fails with no
  side effect on the log. The constructor \<^verbatim>\<open>new PublicKey\<close> is called inside the
  \<^verbatim>\<open>try\<close> block, so its exception reaches the same \<^verbatim>\<open>catch\<close> block: no call is made and
  no record is added, but the transfer confirmed earlier is rewritten to Failed.
\<close>

theorem invalid_recipient_rewrites_confirmed_transfer:
  "map status (transactionHistory transferred) = [Confirmed, Confirmed, Confirmed]
   \<and> te_PublicKey transfer_ok ''not-an-address'' = Inl ''Invalid public key input''
   \<and> snd (transferTokens transfer_ok
        (run transferred [SetRecipientAddress ''not-an-address'', SetTransferAmount ''1''])) = []
   \<and> map status (transactionHistory (fst (transferTokens transfer_ok
        (run transferred [SetRecipientAddress ''not-an-address'', SetTransferAmount ''1'']))))
       = [Confirmed, Confirmed, Failed]"
  by (simp add: transferred_eval run_eval action_simps transfer_ok_def parseFloat_eval)

theorem invalid_recipient_rewrites_confirmed_transfer_witness:
  "map status (transactionHistory (fst (transferTokens transfer_ok
        (run transferred [SetRecipientAddress ''not-an-address'', SetTransferAmount ''1'']))))
     \<noteq> map status (transactionHistory transferred)"
  using invalid_recipient_rewrites_confirmed_transfer by simp

section \<open>The token context\<close>

lemmas op_unfold = createToken_def createToken_try_def createToken_catch_def
  mintTokens_def mintTokens_try_def mintTokens_catch_def
  transferTokens_def transferTokens_try_def transferTokens_catch_def
  try_catch_finally_def fetchTokenBalance_def fetchSolBalance_def action_simps

lemma createToken_context:
  "(tokenMint (fst (createToken env s)) = tokenMint s
      \<and> tokenAccount (fst (createToken env s)) = tokenAccount s)
   \<or> (\<exists>sig asig ata bh. ce_send env = Inr sig \<and> ce_confirm env = Inr ()
         \<and> ce_ata_blockhash env = Inr bh \<and> ce_ata_sign env = Inr ()
         \<and> ce_ata_send env = Inr asig \<and> ce_ata_confirm env = Inr ()
         \<and> ConfirmTransaction sig \<in> set (snd (createToken env s))
         \<and> ConfirmTransaction asig \<in> set (snd (createToken env s))
         \<and> tokenMint (fst (createToken env s)) = Some (ce_generate env)
         \<and> tokenAccount (fst (createToken env s)) = Some ata)"
  by (simp add: op_unfold split: sum.splits option.splits)

lemma mintTokens_context:
  "tokenMint (fst (mintTokens env s)) = tokenMint s
   \<and> tokenAccount (fst (mintTokens env s)) = tokenAccount s"
  by (simp add: op_unfold split: sum.splits option.splits)

lemma transferTokens_context:
  "tokenMint (fst (transferTokens env s)) = tokenMint s
   \<and> tokenAccount (fst (transferTokens env s)) = tokenAccount s"
  by (simp add: op_unfold split: sum.splits option.splits)

lemma step_paired:
  assumes "(tokenAccount s = None) = (tokenMint s = None)"
  shows "(tokenAccount (step s e) = None) = (tokenMint (step s e) = None)"
proof (cases e)
  case (CreateToken env)
  then show ?thesis using assms createToken_context [of env s] by auto
next
  case (MintTokens env)
  then show ?thesis using assms mintTokens_context [of env s] by simp
next
  case (TransferTokens env)
  then show ?thesis using assms transferTokens_context [of env s] by simp
qed (use assms in \<open>auto simp: fetchSolBalance_def fetchTokenBalance_def
       split: option.splits sum.splits\<close>)

lemma run_paired:
  "(tokenAccount s = None) = (tokenMint s = None) \<Longrightarrow>
   (tokenAccount (run s evs) = None) = (tokenMint (run s evs) = None)"
  unfolding run_def by (induction evs arbitrary: s) (simp_all add: step_paired)

lemma create_unconfirmed_eval:
  "fst (createToken create_unconfirmed logged_in) =
     logged_in\<lparr>transactionHistory :=
        [\<lparr>type = ''Token Creation'', signature = ''sigC1'', timestamp = 1, amount = None,
          recipient = None, status = Failed\<rparr>],
       toasts := [ToastError [Str ''Token creation failed: '',
                              Str ''Transaction was not confirmed'']]\<rparr>"
  by (simp add: logged_in_eval run_eval action_simps create_unconfirmed_def create_ok_def)

text \<open>
  Claim C2. In every session reachable from the initial one by any sequence of
  events, \<open>tokenAccount\<close> is null exactly when \<open>tokenMint\<close> is null. A
  \<^verbatim>\<open>createToken\<close> that changes either of them has had both of its
  \<^verbatim>\<open>confirmTransaction\<close> calls resolve (both are in its log) and has set the pair, the
  mint being the key generated in the call. If a call of the second sub-step
  (blockhash, signature, submission or confirmation of the associated-account
  transaction) fails, the pair is left as it was: null if it was null.
\<close>

theorem token_context_set_as_pair:
  "((tokenAccount (run initial evs) = None) = (tokenMint (run initial evs) = None))
   \<and> (tokenMint (fst (createToken env s)) \<noteq> tokenMint s
        \<or> tokenAccount (fst (createToken env s)) \<noteq> tokenAccount s \<longrightarrow>
       (\<exists>sig asig. ce_send env = Inr sig \<and> ce_confirm env = Inr ()
          \<and> ce_ata_send env = Inr asig \<and> ce_ata_confirm env = Inr ()
          \<and> ConfirmTransaction sig \<in> set (snd (createToken env s))
          \<and> ConfirmTransaction asig \<in> set (snd (createToken env s))
          \<and> tokenMint (fst (createToken env s)) = Some (ce_generate env)
          \<and> tokenAccount (fst (createToken env s)) \<noteq> None))
   \<and> (ce_ata_blockhash env = Inl m \<or> ce_ata_sign env = Inl m \<or> ce_ata_send env = Inl m
        \<or> ce_ata_confirm env = Inl m \<longrightarrow>
       tokenMint (fst (createToken env s)) = tokenMint s
       \<and> tokenAccount (fst (createToken env s)) = tokenAccount s)"
proof (intro conjI)
  show "(tokenAccount (run initial evs) = None) = (tokenMint (run initial evs) = None)"
    by (rule run_paired) (simp add: initial_def)
next
  show "tokenMint (fst (createToken env s)) \<noteq> tokenMint s
        \<or> tokenAccount (fst (createToken env s)) \<noteq> tokenAccount s \<longrightarrow>
       (\<exists>sig asig. ce_send env = Inr sig \<and> ce_confirm env = Inr ()
          \<and> ce_ata_send env = Inr asig \<and> ce_ata_confirm env = Inr ()
          \<and> ConfirmTransaction sig \<in> set (snd (createToken env s))
          \<and> ConfirmTransaction asig \<in> set (snd (createToken env s))
          \<and> tokenMint (fst (createToken env s)) = Some (ce_generate env)
          \<and> tokenAccount (fst (createToken env s)) \<noteq> None)"
    using createToken_context [of env s] by auto
next
  show "ce_ata_blockhash env = Inl m \<or> ce_ata_sign env = Inl m \<or> ce_ata_send env = Inl m
        \<or> ce_ata_confirm env = Inl m \<longrightarrow>
       tokenMint (fst (createToken env s)) = tokenMint s
       \<and> tokenAccount (fst (createToken env s)) = tokenAccount s"
    using createToken_context [of env s] by auto
qed

theorem token_context_set_as_pair_witness:
  "tokenMint with_token = Some ''Mint1'' \<and> tokenAccount with_token = Some ''ata-Alice''
   \<and> ConfirmTransaction ''sigC1'' \<in> set (snd (createToken create_ok logged_in))
   \<and> ConfirmTransaction ''sigC2'' \<in> set (snd (createToken create_ok logged_in))
   \<and> ce_ata_confirm create_unconfirmed = Inl ''Transaction was not confirmed''
   \<and> tokenMint (fst (createToken create_unconfirmed logged_in)) = None
   \<and> tokenAccount (fst (createToken create_unconfirmed logged_in)) = None
   \<and> map status (transactionHistory (fst (createToken create_unconfirmed logged_in)))
       = [Failed]"
  using token_context_set_as_pair [of "[Wallet (Some alice) True, CreateToken create_ok]"
          create_ok logged_in "''Transaction was not confirmed''"]
        token_context_set_as_pair [of "[]" create_unconfirmed logged_in
          "''Transaction was not confirmed''"]
  by (simp add: create_unconfirmed_eval with_token_eval logged_in_eval
        create_unconfirmed_def create_ok_def run_eval action_simps)

section \<open>Amounts\<close>

lemma digit_not_special:
  assumes "is_digit c"
  shows "\<not> is_white c" "c \<noteq> CHR ''-''" "c \<noteq> CHR ''+''" "c \<noteq> CHR ''I''"
  using assms by (auto simp: is_digit_def is_white_def)

lemma parseFloat_digits:
  assumes ds: "ds \<noteq> []" "list_all is_digit ds"
    and t: "t = [] \<or> (\<not> is_digit (hd t) \<and> hd t \<noteq> CHR ''.'' \<and> hd t \<noteq> CHR ''e'' \<and> hd t \<noteq> CHR ''E'')"
  shows "parseFloat (ds @ t) = js_number (of_nat (digits_value ds))"
proof -
  obtain d ds' where d: "ds = d # ds'" using ds(1) by (cases ds) auto
  have dd: "is_digit d" using ds(2) d by simp
  have all: "\<forall>c\<in>set ds. is_digit c" using ds(2) by (simp add: list_all_iff)
  have tw_t: "takeWhile is_digit t = []" using t by (cases t) auto
  have dw_t: "dropWhile is_digit t = t" using t by (cases t) auto
  have tw: "takeWhile is_digit (ds @ t) = ds"
    using all tw_t by (simp add: takeWhile_append2)
  have dw: "dropWhile is_digit (ds @ t) = t"
    using all dw_t by (simp add: dropWhile_append2)
  have ws: "dropWhile is_white (ds @ t) = ds @ t"
    using dd d digit_not_special(1) by simp
  have sg: "strip_sign (ds @ t) = (False, ds @ t)"
    using dd d digit_not_special(2,3) by (simp add: strip_sign_def)
  have inf: "take 8 (ds @ t) \<noteq> ''Infinity''"
    using dd d digit_not_special(4) by auto
  have fr: "fraction_part t = ([], t)"
    using t by (cases t) (auto simp: fraction_part_def)
  have ex: "exponent_part t = 0"
    using t by (cases t) (auto simp: exponent_part_def)
  show ?thesis
    using ds(1) by (simp add: parseFloat_def ws sg inf tw dw fr ex scale10_def del: take_append)
qed

lemma parseFloat_digits_prefix:
  assumes "ds \<noteq> []" "list_all is_digit ds"
    and "t = [] \<or> (\<not> is_digit (hd t) \<and> hd t \<noteq> CHR ''.'' \<and> hd t \<noteq> CHR ''e'' \<and> hd t \<noteq> CHR ''E'')"
  shows "parseFloat (ds @ t) = parseFloat ds"
  using parseFloat_digits [OF assms] parseFloat_digits [OF assms(1,2), of "[]"] by simp




section \<open>The transactions that are built\<close>

text \<open>
  Claim C6 says that the mint-to instruction carries \<open>a * 10^9\<close> base units. The
  code computes \<^verbatim>\<open>Math.floor(amount * 1e9)\<close> on doubles. The amount \<open>4.1\<close> is read as
  the double 4.0999999999999996..., its product with \<open>1e9\<close> rounds to
  4099999999.9999995, and the floor is 4099999999: one base unit less than
  \<open>4.1 * 10^9 = 4100000000\<close>.
\<close>

theorem mint_of_4_1_is_one_base_unit_short:
  "parseFloat ''4.1'' = Num (2308094809027379 / 562949953421312)
   \<and> times_1e9 (parseFloat ''4.1'') = Num (8598323199999999 / 2097152)
   \<and> submitted (snd (mintTokens mint_ok (step minted (SetMintAmount ''4.1'')))) =
       [\<lparr>instructions = [MintTo ''Mint1'' ''ata-Alice'' ''Alice'' 4099999999],
         recentBlockhash = Some ''hash3'', feePayer = Some ''Alice'', signers = [''Alice'']\<rparr>]
   \<and> (41 / 10 :: rat) * 10 ^ 9 = 4100000000"
proof -
  have pf: "parseFloat ''4.1'' = Num (2308094809027379 / 562949953421312)"
    by (simp add: parseFloat_eval)
  have pr: "times_1e9 (Num (2308094809027379 / 562949953421312)) = Num (8598323199999999 / 2097152)"
    by (simp add: times_1e9_def number_eval)
  have fl: "\<lfloor>8598323199999999 / 2097152 :: rat\<rfloor> = 4099999999"
    by (simp add: floor_rat_numeral)
  have ni: "rat_of_int 4099999999 \<noteq> 8598323199999999 / 2097152" by simp
  have bu: "BigInt (Math_floor (times_1e9 (Num (2308094809027379 / 562949953421312)))) = Inr 4099999999"
    unfolding pr by (simp add: BigInt_def Math_floor_def fl)
  have "submitted (snd (mintTokens mint_ok (step minted (SetMintAmount ''4.1'')))) =
       [\<lparr>instructions = [MintTo ''Mint1'' ''ata-Alice'' ''Alice'' 4099999999],
         recentBlockhash = Some ''hash3'', feePayer = Some ''Alice'', signers = [''Alice'']\<rparr>]"
    by (simp add: minted_eval pf bu mintTokens_def mintTokens_try_def mintTokens_catch_def
          try_catch_finally_def fetchTokenBalance_def confirm_signature_def isNaN_def
          action_simps mint_ok_def)
  then show ?thesis using pf pr by simp
qed

theorem mint_of_4_1_is_one_base_unit_short_witness:
  "submitted (snd (mintTokens mint_ok (step minted (SetMintAmount ''4.1'')))) \<noteq>
       [\<lparr>instructions = [MintTo ''Mint1'' ''ata-Alice'' ''Alice'' 4100000000],
         recentBlockhash = Some ''hash3'', feePayer = Some ''Alice'', signers = [''Alice'']\<rparr>]"
  using mint_of_4_1_is_one_base_unit_short by simp

text \<open>
  Claim C7. A transfer that passes the local validation, whose recipient string
  is an address, whose scaled amount is finite and whose transaction is signed,
  submits exactly one transaction. When the read of the recipient's associated
  account fails, its instructions are the creation of that account, paid by the
  sender, followed by the transfer; when the read succeeds, the transfer alone.
\<close>

theorem transfer_instructions_follow_probe:
  assumes "publicKey s = Some pk" and "signTransaction s"
    and "tokenMint s = Some mint" and "tokenAccount s = Some acct"
    and "recipientAddress s \<noteq> []" and "transferAmount s \<noteq> []"
    and "\<not> isNaN (parseFloat (transferAmount s))"
    and "\<not> js_le (parseFloat (transferAmount s)) (Num 0)"
    and "\<not> js_gt (parseFloat (transferAmount s)) (Num (tokenBalance s))"
    and "times_1e9 (parseFloat (transferAmount s)) = Num p"
    and "te_PublicKey env (recipientAddress s) = Inr rk" and "te_ata env mint rk = Inr rta"
    and "te_blockhash env = Inr bh" and "te_sign env = Inr ()"
  shows "(te_probe env = Inl m \<longrightarrow>
            (\<exists>n. submitted (snd (transferTokens env s)) =
              [\<lparr>instructions =
                  [CreateAssociatedTokenAccount pk rta rk mint,
                   Transfer acct rta pk n [] TOKEN_PROGRAM_ID],
                recentBlockhash = Some bh, feePayer = Some pk, signers = [pk]\<rparr>]))
       \<and> (te_probe env = Inr k \<longrightarrow>
            (\<exists>n. submitted (snd (transferTokens env s)) =
              [\<lparr>instructions = [Transfer acct rta pk n [] TOKEN_PROGRAM_ID],
                recentBlockhash = Some bh, feePayer = Some pk, signers = [pk]\<rparr>]))"
proof -
  have bu: "BigInt (Math_floor (times_1e9 (parseFloat (transferAmount s)))) = Inr \<lfloor>p\<rfloor>"
    using assms(10) by (simp add: Math_floor_def BigInt_def)
  show ?thesis
    using assms(1-9,11-14) bu
    by (simp add: transferTokens_def transferTokens_try_def transferTokens_catch_def
          try_catch_finally_def fetchTokenBalance_def action_simps split: sum.splits)
qed

theorem transfer_instructions_follow_probe_witness:
  "te_probe transfer_ok = Inl ''TokenAccountNotFoundError''
   \<and> (\<exists>n. submitted (snd (transferTokens transfer_ok
        (run minted [SetRecipientAddress ''Bob'', SetTransferAmount ''5'']))) =
       [\<lparr>instructions =
           [CreateAssociatedTokenAccount ''Alice'' ''ata-Bob'' ''Bob'' ''Mint1'',
            Transfer ''ata-Alice'' ''ata-Bob'' ''Alice'' n [] TOKEN_PROGRAM_ID],
         recentBlockhash = Some ''hash4'', feePayer = Some ''Alice'', signers = [''Alice'']\<rparr>])
   \<and> (\<exists>n. submitted (snd (transferTokens (transfer_ok\<lparr>te_probe := Inr 0\<rparr>)
        (run minted [SetRecipientAddress ''Bob'', SetTransferAmount ''5'']))) =
       [\<lparr>instructions =
           [Transfer ''ata-Alice'' ''ata-Bob'' ''Alice'' n [] TOKEN_PROGRAM_ID],
         recentBlockhash = Some ''hash4'', feePayer = Some ''Alice'', signers = [''Alice'']\<rparr>])"
proof -
  have pf: "parseFloat ''5'' = Num 5" by (simp add: parseFloat_eval)
  have pr: "times_1e9 (Num 5) = Num 5000000000" by (simp add: times_1e9_def number_eval)
  show ?thesis
    using transfer_instructions_follow_probe [of
            "run minted [SetRecipientAddress ''Bob'', SetTransferAmount ''5'']" "''Alice''"
            "''Mint1''" "''ata-Alice''" 5000000000 transfer_ok "''Bob''" "''ata-Bob''" "''hash4''"
            "''TokenAccountNotFoundError''" 0]
          transfer_instructions_follow_probe [of
            "run minted [SetRecipientAddress ''Bob'', SetTransferAmount ''5'']" "''Alice''"
            "''Mint1''" "''ata-Alice''" 5000000000 "transfer_ok\<lparr>te_probe := Inr 0\<rparr>" "''Bob''"
            "''ata-Bob''" "''hash4''" "''TokenAccountNotFoundError''" 0]
          pf pr
    by (simp add: minted_eval run_def transfer_ok_def isNaN_def)
qed

section \<open>The mint identity\<close>

text \<open>
  The only mint address in the transactions that a \<^verbatim>\<open>createToken\<close> submits is the
  key that \<^verbatim>\<open>Keypair.generate()\<close> returned in that call, whatever the session it
  starts from, and it is submitted as soon as the first transaction is signed:
  nothing of an earlier attempt is read. Whether two calls of the generator
  return different keys (claim C9) is a property of the random generator, which
  is an input here.
\<close>

lemma createToken_mint_addresses:
  "mint_addresses (snd (createToken env s)) = [] \<or>
   mint_addresses (snd (createToken env s)) = [ce_generate env]"
  by (simp add: createToken_def createToken_try_def createToken_catch_def try_catch_finally_def
        fetchTokenBalance_def action_simps mint_addresses_def split: sum.splits option.splits)

lemma createToken_mint_addresses_submitted:
  assumes "publicKey s = Some pk" "signTransaction s" "ce_rent env = Inr l"
    "ce_blockhash env = Inr bh" "ce_sign env = Inr ()"
  shows "mint_addresses (snd (createToken env s)) = [ce_generate env]"
  using assms
  by (simp add: createToken_def createToken_try_def createToken_catch_def try_catch_finally_def
        fetchTokenBalance_def action_simps mint_addresses_def split: sum.splits option.splits)

section \<open>Strings that are not numerals\<close>

text \<open>
  Claim C10. Validation looks at the value of \<^verbatim>\<open>parseFloat\<close> only. Any string that
  \<^verbatim>\<open>parseFloat\<close> reads as a finite \<open>a > 0\<close> passes the validation of \<^verbatim>\<open>mintTokens\<close>,
  which enters its \<^verbatim>\<open>try\<close> block with amount \<open>a\<close>, and the numeric checks of
  \<^verbatim>\<open>transferTokens\<close>, which does the same when \<open>a\<close> is within the balance. Such
  strings need not be numerals: digits followed by anything that starts with a
  character other than a digit, a point or an \<open>e\<close> read as the digits alone, and
  \<open>5abc\<close> reads as 5.
\<close>

theorem parseFloat_validation_accepts_prefix:
  assumes "publicKey s = Some pk" and "signTransaction s"
    and "tokenMint s = Some mint" and "tokenAccount s = Some acct"
    and "parseFloat x = Num a" and "0 < a"
  shows "(mintAmount s = x \<longrightarrow>
            mintTokens me s =
              try_catch_finally (mintTokens_try me pk mint acct (Num a)) mintTokens_catch
                (s\<lparr>isLoading := True\<rparr>, []))
       \<and> (transferAmount s = x \<and> recipientAddress s \<noteq> [] \<and> a \<le> tokenBalance s \<longrightarrow>
            transferTokens te s =
              try_catch_finally
                (transferTokens_try te pk mint acct (recipientAddress s) (Num a))
                transferTokens_catch (s\<lparr>isLoading := True\<rparr>, []))
       \<and> (\<forall>ds t. ds \<noteq> [] \<and> list_all is_digit ds \<and> t \<noteq> [] \<and> \<not> is_digit (hd t)
              \<and> hd t \<noteq> CHR ''.'' \<and> hd t \<noteq> CHR ''e'' \<and> hd t \<noteq> CHR ''E'' \<longrightarrow>
            parseFloat (ds @ t) = parseFloat ds)
       \<and> parseFloat ''5abc'' = Num 5"
proof (intro conjI impI allI)
  have amt: "\<not> isNaN (Num a)" "\<not> js_le (Num a) (Num 0)"
    using assms(6) by (simp_all add: isNaN_def)
  show "mintTokens me s =
          try_catch_finally (mintTokens_try me pk mint acct (Num a)) mintTokens_catch
            (s\<lparr>isLoading := True\<rparr>, [])"
    if "mintAmount s = x"
    using that assms(1-5) amt by (simp add: mintTokens_def)
  show "transferTokens te s =
          try_catch_finally
            (transferTokens_try te pk mint acct (recipientAddress s) (Num a))
            transferTokens_catch (s\<lparr>isLoading := True\<rparr>, [])"
    if "transferAmount s = x \<and> recipientAddress s \<noteq> [] \<and> a \<le> tokenBalance s"
  proof -
    have "x \<noteq> []" using assms(5) by (auto simp: parseFloat_def strip_sign_def fraction_part_def)
    then show ?thesis
      using that assms(1-5) amt by (simp add: transferTokens_def)
  qed
  show "parseFloat (ds @ t) = parseFloat ds"
    if "ds \<noteq> [] \<and> list_all is_digit ds \<and> t \<noteq> [] \<and> \<not> is_digit (hd t)
          \<and> hd t \<noteq> CHR ''.'' \<and> hd t \<noteq> CHR ''e'' \<and> hd t \<noteq> CHR ''E''" for ds t
    using that parseFloat_digits_prefix [of ds t] by simp
  show "parseFloat ''5abc'' = Num 5" by (simp add: parseFloat_eval)
qed

theorem parseFloat_validation_accepts_prefix_witness:
  "parseFloat ''5abc'' = Num 5 \<and> parseFloat (''5'' @ ''abc'') = parseFloat ''5''
   \<and> submitted (snd (mintTokens mint_ok (step minted (SetMintAmount ''5abc'')))) =
       [\<lparr>instructions = [MintTo ''Mint1'' ''ata-Alice'' ''Alice'' 5000000000],
         recentBlockhash = Some ''hash3'', feePayer = Some ''Alice'', signers = [''Alice'']\<rparr>]
   \<and> submitted (snd (transferTokens transfer_ok
        (run minted [SetRecipientAddress ''Bob'', SetTransferAmount ''5abc'']))) =
       [\<lparr>instructions =
           [CreateAssociatedTokenAccount ''Alice'' ''ata-Bob'' ''Bob'' ''Mint1'',
            Transfer ''ata-Alice'' ''ata-Bob'' ''Alice'' 5000000000 [] TOKEN_PROGRAM_ID],
         recentBlockhash = Some ''hash4'', feePayer = Some ''Alice'', signers = [''Alice'']\<rparr>]"
proof -
  have pf: "parseFloat ''5abc'' = Num 5" by (simp add: parseFloat_eval)
  have bu: "BigInt (Math_floor (times_1e9 (Num 5))) = Inr 5000000000"
    by (simp add: BigInt_def Math_floor_def times_1e9_def number_eval)
  note thm1 = parseFloat_validation_accepts_prefix [of "step minted (SetMintAmount ''5abc'')"
      "''Alice''" "''Mint1''" "''ata-Alice''" "''5abc''" 5 mint_ok transfer_ok]
  note thm2 = parseFloat_validation_accepts_prefix [of
      "run minted [SetRecipientAddress ''Bob'', SetTransferAmount ''5abc'']"
      "''Alice''" "''Mint1''" "''ata-Alice''" "''5abc''" 5 mint_ok transfer_ok]
  have m: "mintTokens mint_ok (step minted (SetMintAmount ''5abc'')) =
      try_catch_finally (mintTokens_try mint_ok ''Alice'' ''Mint1'' ''ata-Alice'' (Num 5))
        mintTokens_catch ((step minted (SetMintAmount ''5abc''))\<lparr>isLoading := True\<rparr>, [])"
    using thm1 pf by (simp add: minted_eval)
  have t: "transferTokens transfer_ok
        (run minted [SetRecipientAddress ''Bob'', SetTransferAmount ''5abc'']) =
      try_catch_finally (transferTokens_try transfer_ok ''Alice'' ''Mint1'' ''ata-Alice'' ''Bob'' (Num 5))
        transferTokens_catch
        ((run minted [SetRecipientAddress ''Bob'', SetTransferAmount ''5abc''])\<lparr>isLoading := True\<rparr>, [])"
    using thm2 pf by (simp add: minted_eval run_def)
  have q: "\<forall>ds t. ds \<noteq> [] \<and> list_all is_digit ds \<and> t \<noteq> [] \<and> \<not> is_digit (hd t)
              \<and> hd t \<noteq> CHR ''.'' \<and> hd t \<noteq> CHR ''e'' \<and> hd t \<noteq> CHR ''E'' \<longrightarrow>
            parseFloat (ds @ t) = parseFloat ds"
    using thm1 pf by (simp add: minted_eval)
  have pre: "parseFloat (''5'' @ ''abc'') = parseFloat ''5''"
    by (rule q [rule_format]) (simp add: is_digit_def)
  show ?thesis
    unfolding m t using pf pre bu
    by (simp add: minted_eval run_def mintTokens_try_def transferTokens_try_def
          try_catch_finally_def fetchTokenBalance_def confirm_signature_def action_simps
          mint_ok_def transfer_ok_def)
qed

end
